theory Spec2Isabelle
  imports Complex_Main "HOL-Library.AList"
begin

section \<open>Errors\<close>

text \<open>
  The Python exceptions that the orchestrator can raise or propagate.  \<open>Outside_Model\<close>
  is not a Python exception: it marks inputs on which the embedding of a library routine
  makes no statement about what Python does (for example attribute access inside a
  format field).
\<close>

datatype error =
    FileExistsError
  | FileNotFoundError
  | IsADirectoryError
  | KeyError
  | ValueError
  | IndexError
  | TypeError
  | AttributeError
  | Outside_Model

section \<open>Text\<close>

text \<open>
  A Python \<open>str\<close> is modelled by \<open>string\<close>, each \<open>char\<close> standing for the code point
  of the same number (code points below 256).
\<close>

definition py_isspace :: "char \<Rightarrow> bool" where
  \<comment> \<open>the white space of \<open>str.strip()\<close> and \<open>str.split()\<close> among the code points below 256\<close>
  "py_isspace c =
     (let n = (of_char c :: nat)
      in (9 \<le> n \<and> n \<le> 13) \<or> (28 \<le> n \<and> n \<le> 32) \<or> n = 133 \<or> n = 160)"

definition strip :: "string \<Rightarrow> string" where
  \<comment> \<open>\<open>s.strip()\<close>\<close>
  "strip s = rev (dropWhile py_isspace (rev (dropWhile py_isspace s)))"

fun split_words :: "string \<Rightarrow> string \<Rightarrow> string list" where
  \<comment> \<open>\<open>s.split()\<close>: the maximal runs of non-space characters; the first argument is the
      word being read\<close>
  "split_words w [] = (if w = [] then [] else [w])"
| "split_words w (c # cs) =
     (if py_isspace c then (if w = [] then split_words [] cs else w # split_words [] cs)
      else split_words (w @ [c]) cs)"

definition split_ws :: "string \<Rightarrow> string list" where
  "split_ws s = split_words [] s"

fun split_on :: "char \<Rightarrow> string \<Rightarrow> string list" where
  \<comment> \<open>\<open>s.split(sep)\<close> for a one-character separator: empty pieces are kept\<close>
  "split_on sep [] = [[]]"
| "split_on sep (c # cs) =
     (if c = sep then [] # split_on sep cs
      else (case split_on sep cs of [] \<Rightarrow> [[c]] | w # ws \<Rightarrow> (c # w) # ws))"

fun join_with :: "string \<Rightarrow> string list \<Rightarrow> string" where
  \<comment> \<open>\<open>sep.join(parts)\<close>\<close>
  "join_with sep [] = []"
| "join_with sep [p] = p"
| "join_with sep (p # q # ps) = p @ sep @ join_with sep (q # ps)"

definition is_digit :: "char \<Rightarrow> bool" where
  "is_digit c = (let n = (of_char c :: nat) in 48 \<le> n \<and> n \<le> 57)"

definition digit_val :: "char \<Rightarrow> nat" where
  "digit_val c = of_char c - 48"

fun int_digits :: "nat \<Rightarrow> bool \<Rightarrow> string \<Rightarrow> nat option" where
  \<comment> \<open>decimal digits with single underscores between digits; the flag says that the
      previous character was a digit\<close>
  "int_digits acc prev [] = (if prev then Some acc else None)"
| "int_digits acc prev (c # cs) =
     (if is_digit c then int_digits (10 * acc + digit_val c) True cs
      else if c = CHR ''_'' \<and> prev then
        (case cs of [] \<Rightarrow> None
         | d # ds \<Rightarrow> if is_digit d then int_digits acc False cs else None)
      else None)"

definition py_int :: "string \<Rightarrow> int option" where
  \<comment> \<open>\<open>int(s)\<close> on a string: \<open>None\<close> stands for \<open>ValueError\<close>.  The literal may have a
      sign and single underscores between digits; the bound that recent interpreters put
      on the number of digits is not modelled.\<close>
  "py_int s =
     (case strip s of
        [] \<Rightarrow> None
      | c # cs \<Rightarrow>
          if c = CHR ''+'' then map_option int (int_digits 0 False cs)
          else if c = CHR ''-'' then map_option (\<lambda>n. - int n) (int_digits 0 False cs)
          else map_option int (int_digits 0 False (c # cs)))"

fun digits_of :: "nat \<Rightarrow> nat \<Rightarrow> string" where
  \<comment> \<open>the decimal digits of a natural number; the first argument bounds the recursion\<close>
  "digits_of 0 n = []"
| "digits_of (Suc k) n =
     (if n < 10 then [char_of (48 + n)]
      else digits_of k (n div 10) @ [char_of (48 + n mod 10)])"

definition py_str_int :: "int \<Rightarrow> string" where
  \<comment> \<open>\<open>str(n)\<close> for an integer\<close>
  "py_str_int i =
     (if i < 0 then CHR ''-'' # digits_of (Suc (nat (- i))) (nat (- i))
      else digits_of (Suc (nat i)) (nat i))"

section \<open>Paths (\<open>posixpath\<close>)\<close>

definition path_join :: "string \<Rightarrow> string \<Rightarrow> string" where
  \<comment> \<open>\<open>os.path.join(a, b)\<close>\<close>
  "path_join a b =
     (if b \<noteq> [] \<and> hd b = CHR ''/'' then b
      else if a = [] \<or> last a = CHR ''/'' then a @ b
      else a @ ''/'' @ b)"

definition basename :: "string \<Rightarrow> string" where
  \<comment> \<open>\<open>p[p.rfind('/') + 1:]\<close>\<close>
  "basename p = rev (takeWhile (\<lambda>c. c \<noteq> CHR ''/'') (rev p))"

fun norm_comps :: "nat \<Rightarrow> string list \<Rightarrow> string list \<Rightarrow> string list" where
  \<comment> \<open>the loop of \<open>normpath\<close> over the components, \<open>new_comps\<close> in the second argument\<close>
  "norm_comps initial_slashes new_comps [] = new_comps"
| "norm_comps initial_slashes new_comps (part # comps) =
     (if part = [] \<or> part = ''.'' then norm_comps initial_slashes new_comps comps
      else if part \<noteq> ''..'' \<or> (initial_slashes = 0 \<and> new_comps = [])
              \<or> (new_comps \<noteq> [] \<and> last new_comps = ''..'')
        then norm_comps initial_slashes (new_comps @ [part]) comps
      else if new_comps \<noteq> [] then norm_comps initial_slashes (butlast new_comps) comps
      else norm_comps initial_slashes new_comps comps)"

definition normpath :: "string \<Rightarrow> string" where
  "normpath path =
     (if path = [] then ''.''
      else
        let initial_slashes =
              (if take 1 path = ''/'' then
                 (if take 2 path = ''//'' \<and> take 3 path \<noteq> ''///'' then 2 else 1)
               else (0::nat));
            comps = norm_comps initial_slashes [] (split_on CHR ''/'' path);
            p = replicate initial_slashes CHR ''/'' @ join_with ''/'' comps
        in if p = [] then ''.'' else p)"

section \<open>Template rendering (\<open>string.Formatter().vformat\<close> over a \<open>SafeDict\<close>)\<close>

type_synonym bindings = "string \<rightharpoonup> string"

definition SafeDict_getitem :: "bindings \<Rightarrow> string \<Rightarrow> error + string" where
  \<comment> \<open>\<open>SafeDict.__getitem__\<close>: a missing key gives \<open>'{' + key + '}'\<close> (\<open>__missing__\<close>)\<close>
  "SafeDict_getitem d key =
     Inr (case d key of Some v \<Rightarrow> v | None \<Rightarrow> ''{'' @ key @ ''}'')"

definition dict_getitem :: "bindings \<Rightarrow> string \<Rightarrow> error + string" where
  \<comment> \<open>a plain \<open>dict\<close>, as the keyword arguments of \<open>str.format\<close>\<close>
  "dict_getitem d key = (case d key of Some v \<Rightarrow> Inr v | None \<Rightarrow> Inl KeyError)"

definition get_field :: "(string \<Rightarrow> error + string) \<Rightarrow> string \<Rightarrow> error + string" where
  \<comment> \<open>\<open>Formatter.get_field\<close> with \<open>args = ()\<close>: an empty or numeric field name indexes the
      empty tuple; any other name is looked up in the keyword arguments.  Attribute
      access and names with characters outside ASCII are outside the model.\<close>
  "get_field getitem field_name =
     (if field_name = [] \<or> (\<forall>c \<in> set field_name. is_digit c) then
        (if length field_name \<le> 18 then Inl IndexError else Inl Outside_Model)
      else if \<exists>c \<in> set field_name. c = CHR ''.'' \<or> 128 \<le> (of_char c :: nat) then
        Inl Outside_Model
      else getitem field_name)"

definition then_text :: "string \<Rightarrow> error + string \<Rightarrow> error + string" where
  \<comment> \<open>the text produced so far, followed by the rendering of the rest\<close>
  "then_text s r = (case r of Inl e \<Rightarrow> Inl e | Inr t \<Rightarrow> Inr (s @ t))"

fun vformat_text :: "(string \<Rightarrow> error + string) \<Rightarrow> string \<Rightarrow> error + string"
  and vformat_field :: "(string \<Rightarrow> error + string) \<Rightarrow> string \<Rightarrow> string \<Rightarrow> error + string"
where
  "vformat_text getitem [] = Inr []"
| "vformat_text getitem (c # cs) =
     (if c = CHR ''{'' then
        (case cs of
           [] \<Rightarrow> Inl ValueError
         | d # ds \<Rightarrow>
             if d = CHR ''{'' then then_text ''{'' (vformat_text getitem ds)
             else vformat_field getitem [] cs)
      else if c = CHR ''}'' then
        (case cs of
           [] \<Rightarrow> Inl ValueError
         | d # ds \<Rightarrow>
             if d = CHR ''}'' then then_text ''}'' (vformat_text getitem ds)
             else Inl ValueError)
      else then_text [c] (vformat_text getitem cs))"
| "vformat_field getitem field_name [] = Inl ValueError"
| "vformat_field getitem field_name (c # cs) =
     (if c = CHR ''}'' then
        (case get_field getitem field_name of
           Inl e \<Rightarrow> Inl e
         | Inr v \<Rightarrow> then_text v (vformat_text getitem cs))
      else if c = CHR ''{'' then Inl ValueError
      else if c = CHR ''!'' then
        (case cs of
           s # e # rest \<Rightarrow>
             if s = CHR ''s'' \<and> e = CHR ''}'' then
               (case get_field getitem field_name of
                  Inl e \<Rightarrow> Inl e
                | Inr v \<Rightarrow> then_text v (vformat_text getitem rest))
             else Inl Outside_Model
         | _ \<Rightarrow> Inl Outside_Model)
      else if c = CHR '':'' then
        (case cs of
           e # rest \<Rightarrow>
             if e = CHR ''}'' then
               (case get_field getitem field_name of
                  Inl e \<Rightarrow> Inl e
                | Inr v \<Rightarrow> then_text v (vformat_text getitem rest))
             else Inl Outside_Model
         | _ \<Rightarrow> Inl Outside_Model)
      else if c = CHR ''['' then Inl Outside_Model
      else vformat_field getitem (field_name @ [c]) cs)"

definition vformat :: "string \<Rightarrow> bindings \<Rightarrow> error + string" where
  \<comment> \<open>\<open>string.Formatter().vformat(format_string, (), SafeDict(**context))\<close>\<close>
  "vformat format_string d = vformat_text (SafeDict_getitem d) format_string"

definition str_format :: "string \<Rightarrow> bindings \<Rightarrow> error + string" where
  \<comment> \<open>\<open>format_string.format(**context)\<close>\<close>
  "str_format format_string d = vformat_text (dict_getitem d) format_string"

section \<open>The file system\<close>

text \<open>
  Paths are compared as the strings the program passes.  A file written through
  \<open>csv.DictWriter\<close> is recorded in \<open>tables\<close> by its field names and the rows written
  to it; every other file is recorded in \<open>files\<close> by its text.
\<close>

record result_row =
  model :: string
  cell_type :: "string option"
  avg_score :: real

record filesystem =
  dirs :: "string set"
  files :: "string \<rightharpoonup> string"
  tables :: "string \<rightharpoonup> string list \<times> result_row list"

definition path_exists :: "filesystem \<Rightarrow> string \<Rightarrow> bool" where
  "path_exists fs p = (p \<in> dirs fs \<or> files fs p \<noteq> None \<or> tables fs p \<noteq> None)"

fun parent_dirs :: "string \<Rightarrow> string \<Rightarrow> string list" where
  \<comment> \<open>the proper prefixes of a path that end before a separator\<close>
  "parent_dirs pre [] = []"
| "parent_dirs pre (c # cs) =
     (if c = CHR ''/'' \<and> pre \<noteq> [] \<and> last pre \<noteq> CHR ''/''
      then pre # parent_dirs (pre @ [c]) cs
      else parent_dirs (pre @ [c]) cs)"

definition makedirs :: "string \<Rightarrow> filesystem \<Rightarrow> (error + unit) \<times> filesystem" where
  \<comment> \<open>\<open>os.makedirs(name)\<close> with \<open>exist_ok=False\<close>: the leaf must not exist; the leaf and the
      intermediate directories are created\<close>
  "makedirs name fs =
     (if name = [] then (Inl FileNotFoundError, fs)
      else if path_exists fs name then (Inl FileExistsError, fs)
      else (Inr (), fs\<lparr>dirs := dirs fs \<union> set (parent_dirs [] name) \<union> {name}\<rparr>))"

definition open_read :: "filesystem \<Rightarrow> string \<Rightarrow> error + string" where
  \<comment> \<open>\<open>open(path).read()\<close>\<close>
  "open_read fs path =
     (case files fs path of
        Some text \<Rightarrow> Inr text
      | None \<Rightarrow>
          if path \<in> dirs fs then Inl IsADirectoryError
          else if tables fs path \<noteq> None then Inl Outside_Model
          else Inl FileNotFoundError)"

definition write_text :: "string \<Rightarrow> string \<Rightarrow> filesystem \<Rightarrow> (error + unit) \<times> filesystem" where
  \<comment> \<open>\<open>open(path, 'w')\<close> followed by writing \<open>text\<close>\<close>
  "write_text path text fs =
     (if path \<in> dirs fs then (Inl IsADirectoryError, fs)
      else (Inr (), fs\<lparr>files := (files fs)(path \<mapsto> text), tables := (tables fs)(path := None)\<rparr>))"

definition write_table ::
  "string \<Rightarrow> string list \<Rightarrow> result_row list \<Rightarrow> filesystem \<Rightarrow> (error + unit) \<times> filesystem" where
  \<comment> \<open>\<open>open(path, 'w')\<close>, a \<open>csv.DictWriter\<close> on it, \<open>writeheader()\<close> and one \<open>writerow\<close>
      for each row\<close>
  "write_table path fieldnames rows fs =
     (if path \<in> dirs fs then (Inl IsADirectoryError, fs)
      else (Inr (), fs\<lparr>files := (files fs)(path := None),
                          tables := (tables fs)(path \<mapsto> (fieldnames, rows))\<rparr>))"

fun universal_newlines :: "string \<Rightarrow> string" where
  \<comment> \<open>text mode reading: \<open>\\r\\n\<close> and \<open>\\r\<close> become \<open>\\n\<close>\<close>
  "universal_newlines [] = []"
| "universal_newlines (c # cs) =
     (if c = CHR 0x0D then
        (case cs of
           [] \<Rightarrow> [CHR 0x0A]
         | d # ds \<Rightarrow> if d = CHR 0x0A then CHR 0x0A # universal_newlines ds
                    else CHR 0x0A # universal_newlines cs)
      else c # universal_newlines cs)"

fun lines_keepends :: "string \<Rightarrow> string \<Rightarrow> string list" where
  \<comment> \<open>the lines of a text, each with its newline; the first argument is the line being read\<close>
  "lines_keepends l [] = (if l = [] then [] else [l])"
| "lines_keepends l (c # cs) =
     (if c = CHR 0x0A then (l @ [c]) # lines_keepends [] cs
      else lines_keepends (l @ [c]) cs)"

definition readlines :: "string \<Rightarrow> string list" where
  \<comment> \<open>\<open>f.readlines()\<close> on a file opened in text mode with this content\<close>
  "readlines text = lines_keepends [] (universal_newlines text)"

section \<open>The experiment runner\<close>


definition DEFAULT_MODELS_FILE :: string where
  "DEFAULT_MODELS_FILE = ''experiment_models.list''"

text \<open>In the source each template is a string literal whose backslash-newline is a line
  continuation: it contributes no character.\<close>

definition REDUCE_COMMAND_TEMPLATE :: string where
  "REDUCE_COMMAND_TEMPLATE =
     ''python scrna.py reduce {trained_nn_folder} '' @
     ''--data=data/integrate_imputing_dataset_kNN10_simgene_T.txt --out_folder={output_folder}''"

definition RETRIEVAL_COMMAND_TEMPLATE :: string where
  "RETRIEVAL_COMMAND_TEMPLATE =
     ''python scrna.py retrieval {reduced_data_folder} '' @
     ''--out_folder={output_folder}''"

definition SLURM_TRANSFORM_COMMAND :: string where
  "SLURM_TRANSFORM_COMMAND =
     ''sbatch --array=0-{num_jobs} --mail-user {email} '' @
     ''--output {out_folder}/scrna_transform_array_%A_%a.out'' @ [CHR 0x0A] @
     ''--error {err_folder}/scrna_transform_array_%A_%a.err slurm_transform_array.sh''"

definition SLURM_RETRIEVAL_COMMAND :: string where
  "SLURM_RETRIEVAL_COMMAND =
     ''sbatch --array=0-{num_jobs} --mail-user {email} '' @
     ''--output {out_folder}/scrna_retrieval_array_%A_%a.out'' @ [CHR 0x0A] @
     ''--error {err_folder}/scrna_retrieval_array_%A_%a.err -d afterok:{depends} slurm_retrieval_array.sh''"

definition WAIT_COMMAND :: string where
  "WAIT_COMMAND = ''srun -J waiter -d afterok:{depends} -p zbj1 echo '' @ [CHR 0x27] @
     ''(done waiting)'' @ [CHR 0x27]"

type_synonym command_dict = "(string \<times> string) list"

text \<open>
  A Python \<open>dict\<close> with string keys and values, in insertion order: \<open>d[k] = v\<close> is
  \<open>AList.update k v d\<close>, which replaces the value of a key already present in place and
  appends a new key at the end.
\<close>

definition write_out_command_dict ::
  "command_dict \<Rightarrow> string \<Rightarrow> filesystem \<Rightarrow> (error + unit) \<times> filesystem" where
  "write_out_command_dict cmd_dict path fs =
     write_text path (concat (map (\<lambda>v. v @ [CHR 0x0A]) (map snd cmd_dict))) fs"

record Experiment =
  working_dir_path :: string
  transform_commands :: "command_dict option"
  transform_data_folders :: "command_dict option"
  retrieval_commands :: "command_dict option"
  retrieval_dir :: "string option"
  retrieval_result_folders :: "command_dict option"



fun transform_loop ::
  "string \<Rightarrow> string list \<Rightarrow> command_dict \<Rightarrow> command_dict \<Rightarrow> error + command_dict \<times> command_dict"
where
  \<comment> \<open>the first loop of \<open>prepare\<close>, over \<open>model_folders\<close>; it returns
      \<open>(transform_commands, transform_data_folders)\<close>\<close>
  "transform_loop wd [] cmds folders = Inr (cmds, folders)"
| "transform_loop wd (model_folder # rest) cmds folders =
     (let model_name = basename (normpath model_folder);
          reduced_data_folder = path_join wd (''data_transformed_by_'' @ model_name);
          folders' = AList.update model_name reduced_data_folder folders
      in case vformat REDUCE_COMMAND_TEMPLATE
                [''trained_nn_folder'' \<mapsto> model_folder, ''output_folder'' \<mapsto> reduced_data_folder] of
           Inl e \<Rightarrow> Inl e
         | Inr cmd \<Rightarrow> transform_loop wd rest (AList.update model_name cmd cmds) folders')"

fun retrieval_loop ::
  "string \<Rightarrow> (string \<times> string) list \<Rightarrow> command_dict \<Rightarrow> command_dict
     \<Rightarrow> error + command_dict \<times> command_dict"
where
  \<comment> \<open>the second loop of \<open>prepare\<close>, over \<open>transform_data_folders.items()\<close>; it returns
      \<open>(retrieval_commands, retrieval_result_folders)\<close>\<close>
  "retrieval_loop rdir [] cmds folders = Inr (cmds, folders)"
| "retrieval_loop rdir ((model_name, transformed_data_folder) # rest) cmds folders =
     (let retrieval_result_folder = path_join rdir model_name
      in case vformat RETRIEVAL_COMMAND_TEMPLATE
                [''reduced_data_folder'' \<mapsto> transformed_data_folder,
                 ''output_folder'' \<mapsto> retrieval_result_folder] of
           Inl e \<Rightarrow> Inl e
         | Inr cmd \<Rightarrow>
             retrieval_loop rdir rest (AList.update model_name cmd cmds)
               (AList.update model_name retrieval_result_folder folders))"

definition prepare ::
  "Experiment \<Rightarrow> string \<Rightarrow> filesystem \<Rightarrow> (error + unit) \<times> Experiment \<times> filesystem" where
  "prepare self models_file fs =
     (case open_read fs models_file of
        Inl e \<Rightarrow> (Inl e, self, fs)
      | Inr text \<Rightarrow>
          let model_folders = map strip (readlines text)
          in case transform_loop (working_dir_path self) model_folders [] [] of
               Inl e \<Rightarrow> (Inl e, self, fs)
             | Inr (transform_cmds, transform_folders) \<Rightarrow>
                 (case write_out_command_dict transform_cmds ''transform_commands.list'' fs of
                    (Inl e, fs1) \<Rightarrow> (Inl e, self, fs1)
                  | (Inr u, fs1) \<Rightarrow>
                      let self1 = self\<lparr>transform_commands := Some transform_cmds,
                                        transform_data_folders := Some transform_folders\<rparr>;
                          rdir = path_join (working_dir_path self) ''retrieval_results''
                      in case makedirs rdir fs1 of
                           (Inl e, fs2) \<Rightarrow> (Inl e, self1, fs2)
                         | (Inr u, fs2) \<Rightarrow>
                             (case retrieval_loop rdir transform_folders [] [] of
                                Inl e \<Rightarrow> (Inl e, self1, fs2)
                              | Inr (retrieval_cmds, result_folders) \<Rightarrow>
                                  (case write_out_command_dict retrieval_cmds
                                          ''retrieval_commands.list'' fs2 of
                                     (Inl e, fs3) \<Rightarrow> (Inl e, self1, fs3)
                                   | (Inr u, fs3) \<Rightarrow>
                                       (Inr (),
                                        self1\<lparr>retrieval_commands := Some retrieval_cmds,
                                              retrieval_dir := Some rdir,
                                              retrieval_result_folders := Some result_folders\<rparr>,
                                        fs3)))))"

subsection \<open>Submission\<close>

definition job_id_of_stdout :: "string \<Rightarrow> error + int" where
  \<comment> \<open>\<open>int(stdout.strip().split()[-1])\<close> on the decoded standard output\<close>
  "job_id_of_stdout stdout =
     (case split_ws (strip stdout) of
        [] \<Rightarrow> Inl IndexError
      | w # ws \<Rightarrow>
          (case py_int (last (w # ws)) of
             None \<Rightarrow> Inl ValueError
           | Some n \<Rightarrow> Inr n))"

definition dict_len :: "command_dict option \<Rightarrow> error + int" where
  \<comment> \<open>\<open>len(self.attr)\<close>\<close>
  "dict_len attr = (case attr of None \<Rightarrow> Inl AttributeError | Some d \<Rightarrow> Inr (int (length d)))"

definition submit ::
  "(string list \<Rightarrow> string) \<Rightarrow> error + string \<Rightarrow> string list list
     \<Rightarrow> (error + int) \<times> string list list" where
  \<comment> \<open>\<open>subprocess.run(cmd.split(), stdout=subprocess.PIPE)\<close> and the extraction of the job
      identifier; the second component is the list of external calls made so far\<close>
  "submit scheduler cmd calls =
     (case cmd of
        Inl e \<Rightarrow> (Inl e, calls)
      | Inr text \<Rightarrow>
          (job_id_of_stdout (scheduler (split_ws text)), calls @ [split_ws text]))"

definition run ::
  "(string list \<Rightarrow> string) \<Rightarrow> Experiment \<Rightarrow> string \<Rightarrow> filesystem
     \<Rightarrow> (error + unit) \<times> string list list \<times> filesystem" where
  \<comment> \<open>\<open>scheduler\<close> gives the decoded standard output of each blocking external call\<close>
  "run scheduler self email_addr fs =
     (let slurm_transform_out_folder = path_join (working_dir_path self) ''slurm_transform_out''
      in case makedirs slurm_transform_out_folder fs of
           (Inl e, fs1) \<Rightarrow> (Inl e, [], fs1)
         | (Inr u, fs1) \<Rightarrow>
        (case dict_len (transform_commands self) of
           Inl e \<Rightarrow> (Inl e, [], fs1)
         | Inr num_jobs \<Rightarrow>
        (case submit scheduler
                (str_format SLURM_TRANSFORM_COMMAND
                   [''num_jobs'' \<mapsto> py_str_int (num_jobs - 1), ''email'' \<mapsto> email_addr,
                    ''out_folder'' \<mapsto> slurm_transform_out_folder,
                    ''err_folder'' \<mapsto> slurm_transform_out_folder]) [] of
           (Inl e, calls1) \<Rightarrow> (Inl e, calls1, fs1)
         | (Inr transform_job_id, calls1) \<Rightarrow>
        (let slurm_retrieval_out_folder =
               path_join (working_dir_path self) ''slurm_retrieval_out''
         in case makedirs slurm_retrieval_out_folder fs1 of
              (Inl e, fs2) \<Rightarrow> (Inl e, calls1, fs2)
            | (Inr u, fs2) \<Rightarrow>
        (case dict_len (retrieval_commands self) of
           Inl e \<Rightarrow> (Inl e, calls1, fs2)
         | Inr num_jobs \<Rightarrow>
        (case submit scheduler
                (str_format SLURM_RETRIEVAL_COMMAND
                   [''num_jobs'' \<mapsto> py_str_int (num_jobs - 1), ''email'' \<mapsto> email_addr,
                    ''out_folder'' \<mapsto> slurm_retrieval_out_folder,
                    ''err_folder'' \<mapsto> slurm_retrieval_out_folder,
                    ''depends'' \<mapsto> py_str_int transform_job_id]) calls1 of
           (Inl e, calls2) \<Rightarrow> (Inl e, calls2, fs2)
         | (Inr retrieval_job_id, calls2) \<Rightarrow>
        (case str_format WAIT_COMMAND [''depends'' \<mapsto> py_str_int retrieval_job_id] of
           Inl e \<Rightarrow> (Inl e, calls2, fs2)
         | Inr wait_cmd \<Rightarrow> (Inr (), calls2 @ [split_ws wait_cmd], fs2))))))))"

subsection \<open>Aggregation\<close>

text \<open>
  Two library routines are parameters of the aggregation: \<open>csv_reader\<close> gives the rows that
  \<open>csv.reader\<close> yields for the text of a file, and \<open>py_float\<close> is \<open>float\<close> on a string
  (\<open>None\<close> for \<open>ValueError\<close>).  Scores are real numbers: the rounding of floating-point
  arithmetic is outside the model.
\<close>

record pylib =
  csv_reader :: "string \<Rightarrow> string list list"
  py_float :: "string \<Rightarrow> real option"

fun row_lookup :: "string list \<Rightarrow> string list \<Rightarrow> string \<Rightarrow> string option option" where
  \<comment> \<open>the entry for \<open>key\<close> of the dictionary that \<open>csv.DictReader\<close> builds from the field
      names and one row: \<open>dict(zip(fieldnames, row))\<close>, with \<open>None\<close> for each field name
      beyond the end of the row; a later field name overrides an equal earlier one.
      The outer \<open>None\<close> says that the key is absent.\<close>
  "row_lookup [] row key = None"
| "row_lookup (f # fieldnames) row key =
     (case row_lookup fieldnames (tl row) key of
        Some v \<Rightarrow> Some v
      | None \<Rightarrow>
          if f = key then Some (case row of [] \<Rightarrow> None | x # xs \<Rightarrow> Some x) else None)"

definition row_getitem :: "string list \<Rightarrow> string list \<Rightarrow> string \<Rightarrow> error + string option" where
  \<comment> \<open>\<open>row[key]\<close>\<close>
  "row_getitem fieldnames row key =
     (case row_lookup fieldnames row key of None \<Rightarrow> Inl KeyError | Some v \<Rightarrow> Inr v)"

definition float_of_cell :: "pylib \<Rightarrow> string option \<Rightarrow> error + real" where
  \<comment> \<open>\<open>float(v)\<close> for a cell of a row: \<open>float(None)\<close> is a \<open>TypeError\<close>\<close>
  "float_of_cell lib v =
     (case v of
        None \<Rightarrow> Inl TypeError
      | Some s \<Rightarrow> (case py_float lib s of None \<Rightarrow> Inl ValueError | Some x \<Rightarrow> Inr x))"

type_synonym scores_dict = "(string option \<times> real list) list"

definition append_score :: "string option \<Rightarrow> real \<Rightarrow> scores_dict \<Rightarrow> scores_dict" where
  \<comment> \<open>\<open>cell_type_scores_dict[cur_cell_type].append(cur_score)\<close> on a \<open>defaultdict(list)\<close>\<close>
  "append_score k x d =
     (case map_of d k of
        None \<Rightarrow> d @ [(k, [x])]
      | Some xs \<Rightarrow> AList.update k (xs @ [x]) d)"

fun scores_loop ::
  "pylib \<Rightarrow> string list \<Rightarrow> string list list \<Rightarrow> scores_dict \<Rightarrow> error + scores_dict" where
  \<comment> \<open>\<open>for row in reader\<close>\<close>
  "scores_loop lib fieldnames [] d = Inr d"
| "scores_loop lib fieldnames (row # rows) d =
     (case row_getitem fieldnames row ''celltype'' of
        Inl e \<Rightarrow> Inl e
      | Inr cur_cell_type \<Rightarrow>
          (case row_getitem fieldnames row ''mean average precision'' of
             Inl e \<Rightarrow> Inl e
           | Inr v \<Rightarrow>
               (case float_of_cell lib v of
                  Inl e \<Rightarrow> Inl e
                | Inr cur_score \<Rightarrow>
                    scores_loop lib fieldnames rows (append_score cur_cell_type cur_score d))))"

definition np_mean :: "real list \<Rightarrow> real" where
  "np_mean xs = sum_list xs / real (length xs)"

definition DictReader_rows :: "string list list \<Rightarrow> string list \<times> string list list" where
  \<comment> \<open>\<open>csv.DictReader\<close>: the first row gives the field names, and empty rows are skipped\<close>
  "DictReader_rows rows =
     (case rows of
        [] \<Rightarrow> ([], [])
      | fieldnames # data \<Rightarrow> (fieldnames, filter (\<lambda>row. row \<noteq> []) data))"

definition get_avg_score_for_each_cell_type ::
  "pylib \<Rightarrow> filesystem \<Rightarrow> string \<Rightarrow> error + (string option \<times> real) list" where
  "get_avg_score_for_each_cell_type lib fs path_to_csv =
     (case open_read fs path_to_csv of
        Inl e \<Rightarrow> Inl e
      | Inr text \<Rightarrow>
          (case DictReader_rows (csv_reader lib text) of
             (fieldnames, data) \<Rightarrow>
               (case scores_loop lib fieldnames data [] of
                  Inl e \<Rightarrow> Inl e
                | Inr cell_type_scores_dict \<Rightarrow>
                    Inr (map (\<lambda>(cell_type, scores_list). (cell_type, np_mean scores_list))
                           cell_type_scores_dict))))"

fun results_loop ::
  "pylib \<Rightarrow> filesystem \<Rightarrow> (string \<times> string) list \<Rightarrow> result_row list
     \<Rightarrow> error + result_row list" where
  \<comment> \<open>the loop of \<open>create_overall_results_table\<close> over \<open>retrieval_result_folders.items()\<close>\<close>
  "results_loop lib fs [] overall_results = Inr overall_results"
| "results_loop lib fs ((model_name, results_folder) # rest) overall_results =
     (let results_file = path_join results_folder ''retrieval_summary.csv''
      in case get_avg_score_for_each_cell_type lib fs results_file of
           Inl e \<Rightarrow> Inl e
         | Inr cell_types_and_scores \<Rightarrow>
             results_loop lib fs rest
               (overall_results @
                map (\<lambda>(ct, score). \<lparr>model = model_name, cell_type = ct, avg_score = score\<rparr>)
                  cell_types_and_scores))"

definition create_overall_results_table ::
  "pylib \<Rightarrow> Experiment \<Rightarrow> filesystem \<Rightarrow> (error + result_row list) \<times> filesystem" where
  "create_overall_results_table lib self fs =
     (case retrieval_result_folders self of
        None \<Rightarrow> (Inl AttributeError, fs)
      | Some folders \<Rightarrow>
          (case results_loop lib fs folders [] of
             Inl e \<Rightarrow> (Inl e, fs)
           | Inr overall_results \<Rightarrow>
               (case write_table (path_join (working_dir_path self) ''full_results_table.csv'')
                       [''model'', ''cell_type'', ''avg_score''] overall_results fs of
                  (Inl e, fs') \<Rightarrow> (Inl e, fs')
                | (Inr u, fs') \<Rightarrow> (Inr overall_results, fs'))))"

definition compile_results ::
  "pylib \<Rightarrow> Experiment \<Rightarrow> filesystem \<Rightarrow> (error + unit) \<times> filesystem" where
  "compile_results lib self fs =
     (case create_overall_results_table lib self fs of
        (Inl e, fs') \<Rightarrow> (Inl e, fs')
      | (Inr results, fs') \<Rightarrow> (Inr (), fs'))"

section \<open>Notions used to state the properties\<close>

subsection \<open>Templates as sequences of segments\<close>

text \<open>
  A template seen as the specification sees it: literal text, named placeholders
  \<open>{key}\<close>, and the escapes \<open>{{\<close> and \<open>}}\<close> for a literal brace.
\<close>

datatype segment = Lit string | Field string | Open_brace | Close_brace

definition brace_free :: "string \<Rightarrow> bool" where
  "brace_free s = (\<forall>c \<in> set s. c \<noteq> CHR ''{'' \<and> c \<noteq> CHR ''}'')"

definition plain_char :: "char \<Rightarrow> bool" where
  "plain_char c =
     (c \<noteq> CHR ''{'' \<and> c \<noteq> CHR ''}'' \<and> c \<noteq> CHR ''['' \<and> c \<noteq> CHR ''.'' \<and> c \<noteq> CHR ''!''
      \<and> c \<noteq> CHR '':'' \<and> (of_char c :: nat) < 128)"

definition plain_key :: "string \<Rightarrow> bool" where
  \<comment> \<open>a name that is not positional and uses no conversion, format specification,
      attribute or index\<close>
  "plain_key k = ((\<forall>c \<in> set k. plain_char c) \<and> (\<exists>c \<in> set k. \<not> is_digit c))"

fun segment_ok :: "segment \<Rightarrow> bool" where
  "segment_ok (Lit s) = brace_free s"
| "segment_ok (Field k) = plain_key k"
| "segment_ok Open_brace = True"
| "segment_ok Close_brace = True"

fun simple_segment :: "segment \<Rightarrow> bool" where
  "simple_segment (Lit s) = brace_free s"
| "simple_segment (Field k) = plain_key k"
| "simple_segment Open_brace = False"
| "simple_segment Close_brace = False"

fun segment_text :: "segment \<Rightarrow> string" where
  \<comment> \<open>how a segment is written in the template\<close>
  "segment_text (Lit s) = s"
| "segment_text (Field k) = ''{'' @ k @ ''}''"
| "segment_text Open_brace = ''{{''"
| "segment_text Close_brace = ''}}''"

definition template_text :: "segment list \<Rightarrow> string" where
  "template_text segs = concat (map segment_text segs)"

fun render_segment :: "bindings \<Rightarrow> segment \<Rightarrow> string" where
  \<comment> \<open>what the specification asks of rendering: a bound placeholder becomes its value, an
      unbound one stays as it is written\<close>
  "render_segment d (Lit s) = s"
| "render_segment d (Field k) = (case d k of Some v \<Rightarrow> v | None \<Rightarrow> segment_text (Field k))"
| "render_segment d Open_brace = ''{''"
| "render_segment d Close_brace = ''}''"

definition render :: "bindings \<Rightarrow> segment list \<Rightarrow> string" where
  "render d segs = concat (map (render_segment d) segs)"

definition fill :: "bindings \<Rightarrow> segment \<Rightarrow> segment" where
  \<comment> \<open>a segment after a first rendering pass: a bound placeholder has become text\<close>
  "fill d seg =
     (case seg of
        Field k \<Rightarrow> (case d k of Some v \<Rightarrow> Lit v | None \<Rightarrow> Field k)
      | _ \<Rightarrow> seg)"

subsection \<open>Score observations of a result file\<close>








subsection \<open>A small instance of the library routines, for examples\<close>

text \<open>
  Comma-separated text without quoting, and unsigned decimal literals \<open>digits\<close> or
  \<open>digits.digits\<close>.  On such input the two functions agree with \<open>csv.reader\<close> and
  \<open>float\<close>.
\<close>

definition plain_csv_reader :: "string \<Rightarrow> string list list" where
  "plain_csv_reader text =
     map (\<lambda>l. let l' = filter (\<lambda>c. c \<noteq> CHR 0x0A) l
               in if l' = [] then [] else split_on CHR '','' l')
       (lines_keepends [] text)"

definition decimal_float :: "string \<Rightarrow> real option" where
  "decimal_float s =
     (case split_on CHR ''.'' s of
        [ip] \<Rightarrow> map_option real (int_digits 0 False ip)
      | [ip, fp] \<Rightarrow>
          (case (int_digits 0 False ip, int_digits 0 False fp) of
             (Some a, Some b) \<Rightarrow>
               if CHR ''_'' \<in> set fp then None else Some (real a + real b / 10 ^ length fp)
           | _ \<Rightarrow> None)
      | _ \<Rightarrow> None)"

definition example_lib :: pylib where
  "example_lib = \<lparr>csv_reader = plain_csv_reader, py_float = decimal_float\<rparr>"

definition example_summary :: string where
  \<comment> \<open>a result file with rows (catA, 1.0), (catA, 3.0), (catB, 2.0)\<close>
  "example_summary =
     ''celltype,mean average precision'' @ [CHR 0x0A] @
     ''catA,1.0'' @ [CHR 0x0A] @
     ''catA,3.0'' @ [CHR 0x0A] @
     ''catB,2.0'' @ [CHR 0x0A]"

subsection \<open>A run with two models\<close>

definition example_models_text :: string where
  "example_models_text = ''models/alpha'' @ [CHR 0x0A] @ ''models/beta'' @ [CHR 0x0A]"

definition example_fs :: "string \<Rightarrow> filesystem" where
  \<comment> \<open>before \<open>prepare\<close>: the workspace \<open>w\<close> and a list of models with the given text\<close>
  "example_fs models_text =
     \<lparr>dirs = {''w''}, files = [''experiment_models.list'' \<mapsto> models_text],
      tables = Map.empty\<rparr>"

definition example_new :: Experiment where
  \<comment> \<open>the object that \<open>Experiment('w')\<close> constructs\<close>
  "example_new =
     \<lparr>working_dir_path = ''w'', transform_commands = None, transform_data_folders = None,
      retrieval_commands = None, retrieval_dir = None, retrieval_result_folders = None\<rparr>"

definition example_prepared :: Experiment where
  \<comment> \<open>the object after \<open>prepare\<close> on the models \<open>alpha\<close> and \<open>beta\<close>\<close>
  "example_prepared =
     \<lparr>working_dir_path = ''w'',
      transform_commands = Some
        [(''alpha'', ''python scrna.py reduce models/alpha --data=data/integrate_imputing_dataset_kNN10_simgene_T.txt --out_folder=w/data_transformed_by_alpha''),
         (''beta'', ''python scrna.py reduce models/beta --data=data/integrate_imputing_dataset_kNN10_simgene_T.txt --out_folder=w/data_transformed_by_beta'')],
      transform_data_folders = Some
        [(''alpha'', ''w/data_transformed_by_alpha''), (''beta'', ''w/data_transformed_by_beta'')],
      retrieval_commands = Some
        [(''alpha'', ''python scrna.py retrieval w/data_transformed_by_alpha --out_folder=w/retrieval_results/alpha''),
         (''beta'', ''python scrna.py retrieval w/data_transformed_by_beta --out_folder=w/retrieval_results/beta'')],
      retrieval_dir = Some ''w/retrieval_results'',
      retrieval_result_folders = Some
        [(''alpha'', ''w/retrieval_results/alpha''), (''beta'', ''w/retrieval_results/beta'')]\<rparr>"

definition example_results_fs :: "string \<Rightarrow> filesystem" where
  \<comment> \<open>after the jobs: only the named model has produced its result file\<close>
  "example_results_fs model_name =
     \<lparr>dirs = {''w'', ''w/retrieval_results''},
      files = [''w/retrieval_results/'' @ model_name @ ''/retrieval_summary.csv'' \<mapsto> example_summary],
      tables = Map.empty\<rparr>"

subsection \<open>The commands of the two stages\<close>

definition model_name_of :: "string \<Rightarrow> string" where
  \<comment> \<open>the name under which a model folder is recorded\<close>
  "model_name_of model_folder = basename (normpath model_folder)"

definition transformed_folder :: "string \<Rightarrow> string \<Rightarrow> string" where
  \<comment> \<open>the output directory of the stage-1 command of a model\<close>
  "transformed_folder wd model_folder =
     path_join wd (''data_transformed_by_'' @ model_name_of model_folder)"

definition reduce_command :: "string \<Rightarrow> string \<Rightarrow> string" where
  \<comment> \<open>the text of a stage-1 command reading \<open>model_folder\<close> and writing to \<open>out\<close>\<close>
  "reduce_command model_folder out =
     ''python scrna.py reduce '' @ model_folder @
     '' --data=data/integrate_imputing_dataset_kNN10_simgene_T.txt --out_folder='' @ out"

definition retrieval_command :: "string \<Rightarrow> string \<Rightarrow> string" where
  \<comment> \<open>the text of a stage-2 command reading the directory \<open>inp\<close> and writing to \<open>out\<close>\<close>
  "retrieval_command inp out =
     ''python scrna.py retrieval '' @ inp @ '' --out_folder='' @ out"

definition results_dir :: "Experiment \<Rightarrow> string" where
  "results_dir self = path_join (working_dir_path self) ''retrieval_results''"

definition command_lines :: "command_dict \<Rightarrow> string" where
  \<comment> \<open>the text of a command list: one command on each line, in the order of the dictionary\<close>
  "command_lines cmd_dict = concat (map (\<lambda>v. v @ [CHR 0x0A]) (map snd cmd_dict))"

text \<open>Closed forms of what the two loops of \<open>prepare\<close> build, and of the state it leaves.\<close>

definition stage1_commands :: "string \<Rightarrow> string list \<Rightarrow> command_dict" where
  "stage1_commands wd mfs =
     fold (\<lambda>mf. AList.update (model_name_of mf) (reduce_command mf (transformed_folder wd mf))) mfs []"

definition stage1_folders :: "string \<Rightarrow> string list \<Rightarrow> command_dict" where
  "stage1_folders wd mfs =
     fold (\<lambda>mf. AList.update (model_name_of mf) (transformed_folder wd mf)) mfs []"

definition stage2_commands :: "string \<Rightarrow> command_dict \<Rightarrow> command_dict" where
  "stage2_commands rdir items =
     fold (\<lambda>(n, d). AList.update n (retrieval_command d (path_join rdir n))) items []"

definition stage2_folders :: "string \<Rightarrow> command_dict \<Rightarrow> command_dict" where
  "stage2_folders rdir items =
     fold (\<lambda>(n, d). AList.update n (path_join rdir n)) items []"

definition prepared :: "Experiment \<Rightarrow> string list \<Rightarrow> Experiment" where
  "prepared self mfs =
     self\<lparr>transform_commands := Some (stage1_commands (working_dir_path self) mfs),
          transform_data_folders := Some (stage1_folders (working_dir_path self) mfs),
          retrieval_commands :=
            Some (stage2_commands (results_dir self) (stage1_folders (working_dir_path self) mfs)),
          retrieval_dir := Some (results_dir self),
          retrieval_result_folders :=
            Some (stage2_folders (results_dir self) (stage1_folders (working_dir_path self) mfs))\<rparr>"

definition prepared_fs :: "Experiment \<Rightarrow> string list \<Rightarrow> filesystem \<Rightarrow> filesystem" where
  "prepared_fs self mfs fs =
     fs\<lparr>dirs := dirs fs \<union> set (parent_dirs [] (results_dir self)) \<union> {results_dir self},
        files := (files fs)
          (''transform_commands.list'' \<mapsto> command_lines (stage1_commands (working_dir_path self) mfs),
           ''retrieval_commands.list'' \<mapsto>
              command_lines (stage2_commands (results_dir self)
                               (stage1_folders (working_dir_path self) mfs))),
        tables := (tables fs)(''transform_commands.list'' := None, ''retrieval_commands.list'' := None)\<rparr>"

definition prepare_can_run :: "Experiment \<Rightarrow> string \<Rightarrow> filesystem \<Rightarrow> bool" where
  \<comment> \<open>the list of models can be read, the two command lists are not names of directories,
      and the directory of retrieval results does not exist yet\<close>
  "prepare_can_run self models_file fs =
     (files fs models_file \<noteq> None
      \<and> ''transform_commands.list'' \<notin> dirs fs
      \<and> ''retrieval_commands.list'' \<notin> dirs fs
      \<and> ''retrieval_commands.list'' \<notin> set (parent_dirs [] (results_dir self))
      \<and> \<not> path_exists fs (results_dir self))"

definition under_directory :: "string \<Rightarrow> string \<Rightarrow> bool" where
  \<comment> \<open>the path is textually rooted at the directory\<close>
  "under_directory d p = (take (length d + 1) p = d @ ''/'')"

definition example_prepared_fs :: filesystem where
  \<comment> \<open>the file system after \<open>prepare\<close> on the models \<open>alpha\<close> and \<open>beta\<close>\<close>
  "example_prepared_fs =
     \<lparr>dirs = {''w'', ''w/retrieval_results''},
      files =
        [''experiment_models.list'' \<mapsto> example_models_text,
         ''transform_commands.list'' \<mapsto>
           ''python scrna.py reduce models/alpha --data=data/integrate_imputing_dataset_kNN10_simgene_T.txt --out_folder=w/data_transformed_by_alpha'' @ [CHR 0x0A] @
           ''python scrna.py reduce models/beta --data=data/integrate_imputing_dataset_kNN10_simgene_T.txt --out_folder=w/data_transformed_by_beta'' @ [CHR 0x0A],
         ''retrieval_commands.list'' \<mapsto>
           ''python scrna.py retrieval w/data_transformed_by_alpha --out_folder=w/retrieval_results/alpha'' @ [CHR 0x0A] @
           ''python scrna.py retrieval w/data_transformed_by_beta --out_folder=w/retrieval_results/beta'' @ [CHR 0x0A]],
      tables = Map.empty\<rparr>"

definition example_collision_text :: string where
  \<comment> \<open>two model folders with the same final component\<close>
  "example_collision_text = ''runs/a/net'' @ [CHR 0x0A] @ ''runs/b/net'' @ [CHR 0x0A]"

definition example_blank_text :: string where
  \<comment> \<open>a list of models with an empty line between two entries\<close>
  "example_blank_text =
     ''models/alpha'' @ [CHR 0x0A] @ [CHR 0x0A] @ ''models/beta'' @ [CHR 0x0A]"

section \<open>Properties\<close>

subsection \<open>Workspace creation\<close>

lemma path_join_nonempty: "a \<noteq> [] \<Longrightarrow> path_join a b \<noteq> []"
  by (simp add: path_join_def)




subsection \<open>Extraction of the job identifier\<close>










subsection \<open>Template rendering\<close>

lemma then_text_then_text [simp]: "then_text a (then_text b r) = then_text (a @ b) r"
  by (cases r) (simp_all add: then_text_def)

lemma then_text_Inr [simp]: "then_text a (Inr t) = Inr (a @ t)"
  by (simp add: then_text_def)

lemma then_text_Nil [simp]: "then_text [] r = r"
  by (cases r) (simp_all add: then_text_def)

lemma vformat_text_literal:
  "brace_free s \<Longrightarrow> vformat_text g (s @ rest) = then_text s (vformat_text g rest)"
proof (induction s)
  case Nil
  then show ?case by simp
next
  case (Cons c s)
  then have "c \<noteq> CHR ''{''" "c \<noteq> CHR ''}''" "brace_free s"
    by (simp_all add: brace_free_def)
  with Cons.IH show ?case by simp
qed

lemma vformat_field_step:
  assumes "plain_char c"
  shows "vformat_field g acc (c # cs) = vformat_field g (acc @ [c]) cs"
proof -
  from assms have "c \<noteq> CHR ''}''" "c \<noteq> CHR ''{''" "c \<noteq> CHR ''!''" "c \<noteq> CHR '':''" "c \<noteq> CHR ''[''"
    by (simp_all add: plain_char_def)
  then show ?thesis by (subst vformat_field.simps) simp
qed

lemma vformat_field_end:
  "vformat_field g acc (CHR ''}'' # rest) =
     (case get_field g acc of
        Inl e \<Rightarrow> Inl e
      | Inr v \<Rightarrow> then_text v (vformat_text g rest))"
  by (subst vformat_field.simps) simp

lemma vformat_field_name:
  "\<forall>c \<in> set k. plain_char c \<Longrightarrow>
   vformat_field g acc (k @ CHR ''}'' # rest) =
     (case get_field g (acc @ k) of
        Inl e \<Rightarrow> Inl e
      | Inr v \<Rightarrow> then_text v (vformat_text g rest))"
proof (induction k arbitrary: acc)
  case Nil
  show ?case by (simp only: append_Nil append_Nil2 vformat_field_end)
next
  case (Cons c k)
  then have c: "plain_char c" and rest: "\<forall>c \<in> set k. plain_char c" by simp_all
  have "vformat_field g acc ((c # k) @ CHR ''}'' # rest) =
        vformat_field g (acc @ [c]) (k @ CHR ''}'' # rest)"
    by (simp only: append_Cons vformat_field_step [OF c])
  also have "\<dots> = (case get_field g ((acc @ [c]) @ k) of
        Inl e \<Rightarrow> Inl e
      | Inr v \<Rightarrow> then_text v (vformat_text g rest))"
    by (rule Cons.IH [OF rest])
  finally show ?case by simp
qed

lemma plain_key_nonempty: "plain_key k \<Longrightarrow> k \<noteq> []"
  unfolding plain_key_def by (cases k) simp_all

lemma get_field_plain_key:
  assumes "plain_key k"
  shows "get_field g k = g k"
proof -
  from assms have ne: "k \<noteq> []" by (rule plain_key_nonempty)
  from assms have nd: "\<not> (\<forall>c \<in> set k. is_digit c)"
    unfolding plain_key_def by blast
  from assms have "\<forall>c \<in> set k. c \<noteq> CHR ''.'' \<and> (of_char c :: nat) < 128"
    unfolding plain_key_def plain_char_def by blast
  then have np: "\<not> (\<exists>c \<in> set k. c = CHR ''.'' \<or> 128 \<le> (of_char c :: nat))"
    by (meson not_le)
  show ?thesis unfolding get_field_def using ne nd np by (simp only: if_False simp_thms)
qed

lemma vformat_text_field:
  assumes "plain_key k"
  shows "vformat_text g (CHR ''{'' # k @ CHR ''}'' # rest) =
           (case g k of Inl e \<Rightarrow> Inl e | Inr v \<Rightarrow> then_text v (vformat_text g rest))"
proof -
  from assms have plain: "\<forall>c \<in> set k. plain_char c" unfolding plain_key_def by blast
  from plain_key_nonempty [OF assms] obtain c cs where k: "k = c # cs" by (cases k) simp_all
  with plain have "plain_char c" by simp
  then have c: "c \<noteq> CHR ''{''" unfolding plain_char_def by blast
  have "vformat_text g (CHR ''{'' # c # cs @ CHR ''}'' # rest) =
        vformat_field g [] (c # cs @ CHR ''}'' # rest)"
    using c by (subst vformat_text.simps) simp
  then have "vformat_text g (CHR ''{'' # k @ CHR ''}'' # rest) =
        vformat_field g [] (k @ CHR ''}'' # rest)"
    by (simp only: k append_Cons)
  also have "\<dots> = (case get_field g ([] @ k) of
        Inl e \<Rightarrow> Inl e | Inr v \<Rightarrow> then_text v (vformat_text g rest))"
    by (rule vformat_field_name [OF plain])
  finally show ?thesis using assms by (simp add: get_field_plain_key)
qed

lemma vformat_text_segment:
  "segment_ok seg \<Longrightarrow>
   vformat_text (SafeDict_getitem d) (segment_text seg @ rest) =
     then_text (render_segment d seg) (vformat_text (SafeDict_getitem d) rest)"
proof (cases seg)
  case (Lit s)
  assume "segment_ok seg"
  with Lit show ?thesis by (simp add: vformat_text_literal)
next
  case (Field k)
  assume "segment_ok seg"
  with Field have pk: "plain_key k" by simp
  have eq: "segment_text seg @ rest = CHR ''{'' # k @ CHR ''}'' # rest"
    using Field by simp
  show ?thesis
    unfolding eq vformat_text_field [OF pk]
    using Field by (simp add: SafeDict_getitem_def split: option.split)
next
  case Open_brace
  then show ?thesis by simp
next
  case Close_brace
  then show ?thesis by simp
qed

lemma vformat_segments:
  "\<forall>seg \<in> set segs. segment_ok seg \<Longrightarrow>
   vformat (template_text segs) d = Inr (render d segs)"
proof -
  assume ok: "\<forall>seg \<in> set segs. segment_ok seg"
  have "vformat_text (SafeDict_getitem d) (concat (map segment_text segs)) =
        Inr (concat (map (render_segment d) segs))"
    using ok
  proof (induction segs)
    case Nil
    then show ?case by simp
  next
    case (Cons seg segs)
    then show ?case by (simp add: vformat_text_segment)
  qed
  then show ?thesis by (simp add: vformat_def template_text_def render_def)
qed

lemma simple_segment_ok: "simple_segment seg \<Longrightarrow> segment_ok seg"
  by (cases seg) simp_all

lemma fill_text: "simple_segment seg \<Longrightarrow> segment_text (fill d seg) = render_segment d seg"
  by (cases seg) (simp_all add: fill_def split: option.split)

lemma fill_ok:
  "simple_segment seg \<Longrightarrow> \<forall>v \<in> ran d. brace_free v \<Longrightarrow> segment_ok (fill d seg)"
  by (cases seg) (auto simp: fill_def ran_def split: option.split)

lemma fill_render:
  "simple_segment seg \<Longrightarrow> dom d1 \<inter> dom d2 = {} \<Longrightarrow>
   render_segment d2 (fill d1 seg) = render_segment (d1 ++ d2) seg"
  by (cases seg) (auto simp: fill_def map_add_def split: option.split)

lemma two_pass_helper:
  assumes "\<forall>seg \<in> set segs. simple_segment seg"
    and "\<forall>v \<in> ran d1. brace_free v"
    and "dom d1 \<inter> dom d2 = {}"
  shows "vformat (template_text segs) d1 = Inr (render d1 segs)"
    and "vformat (render d1 segs) d2 = Inr (render (d1 ++ d2) segs)"
    and "vformat (template_text segs) (d1 ++ d2) = Inr (render (d1 ++ d2) segs)"
proof -
  from assms(1) have ok: "\<forall>seg \<in> set segs. segment_ok seg"
    by (simp add: simple_segment_ok)
  then show "vformat (template_text segs) d1 = Inr (render d1 segs)"
    and "vformat (template_text segs) (d1 ++ d2) = Inr (render (d1 ++ d2) segs)"
    by (simp_all add: vformat_segments)
  have eq: "render d1 segs = template_text (map (fill d1) segs)"
    using assms(1) by (simp add: render_def template_text_def fill_text comp_def cong: map_cong)
  have "\<forall>seg \<in> set (map (fill d1) segs). segment_ok seg"
    using assms(1,2) by (simp add: fill_ok)
  then have "vformat (render d1 segs) d2 = Inr (render d2 (map (fill d1) segs))"
    unfolding eq by (rule vformat_segments)
  moreover have "render d2 (map (fill d1) segs) = render (d1 ++ d2) segs"
    using assms(1,3) by (simp add: render_def comp_def fill_render cong: map_cong)
  ultimately show "vformat (render d1 segs) d2 = Inr (render (d1 ++ d2) segs)" by simp
qed

text \<open>
  Claim C5, as stated, fails: a placeholder with a conversion or an empty format
  specification whose key is absent comes out without them, and a numeric placeholder
  raises \<open>IndexError\<close> even when its digits are a key of the context.
\<close>

theorem absent_placeholder_not_preserved:
  "vformat ''{x!s}'' Map.empty = Inr ''{x}''
   \<and> vformat ''{x:}'' Map.empty = Inr ''{x}''
   \<and> vformat ''{0}'' [''0'' \<mapsto> ''v''] = Inl IndexError"
  by (simp add: vformat_def SafeDict_getitem_def get_field_def is_digit_def)

text \<open>
  Claim C5, amended.  For a template made of brace-free text, escaped braces and plain
  named placeholders (no positional name, conversion, format specification, attribute or
  index), rendering never raises; it replaces each placeholder whose key is in the
  context by the bound value and leaves each placeholder whose key is absent exactly as
  it is written in the template.
\<close>

theorem render_plain_template:
  assumes "\<forall>seg \<in> set segs. segment_ok seg"
  shows "vformat (template_text segs) d = Inr (concat (map (render_segment d) segs))
         \<and> (\<forall>k v. d k = Some v \<longrightarrow> render_segment d (Field k) = v)
         \<and> (\<forall>k. d k = None \<longrightarrow> render_segment d (Field k) = segment_text (Field k))"
  using vformat_segments [OF assms, of d] by (simp add: render_def)

theorem render_plain_template_witness:
  "list_all segment_ok [Lit ''run '', Field ''a'', Lit '' '', Field ''b'', Open_brace, Close_brace]
   \<and> template_text [Lit ''run '', Field ''a'', Lit '' '', Field ''b'', Open_brace, Close_brace]
       = ''run {a} {b}{{}}''
   \<and> vformat ''run {a} {b}{{}}'' [''a'' \<mapsto> ''1''] = Inr ''run 1 {b}{}''"
proof -
  let ?segs = "[Lit ''run '', Field ''a'', Lit '' '', Field ''b'', Open_brace, Close_brace]"
  have ok: "\<forall>seg \<in> set ?segs. segment_ok seg"
    by (simp add: brace_free_def plain_key_def plain_char_def is_digit_def)
  have t: "template_text ?segs = ''run {a} {b}{{}}''"
    by (simp add: template_text_def)
  from render_plain_template [OF ok, of "[''a'' \<mapsto> ''1'']"]
  have "vformat (template_text ?segs) [''a'' \<mapsto> ''1''] = Inr ''run 1 {b}{}''"
    by simp
  with ok t show ?thesis by (simp only: list_all_iff simp_thms)
qed

text \<open>
  Claim C6, as stated, fails: a value bound in the first pass may itself contain a
  placeholder, which the second pass then fills, and an escaped brace pair of the
  template becomes a placeholder for the second pass.
\<close>

theorem two_passes_differ_from_one:
  "dom [''a'' \<mapsto> ''{b}''] \<inter> dom [''b'' \<mapsto> ''z''] = {}
   \<and> vformat ''{a}'' [''a'' \<mapsto> ''{b}''] = Inr ''{b}''
   \<and> vformat ''{b}'' [''b'' \<mapsto> ''z''] = Inr ''z''
   \<and> vformat ''{a}'' ([''a'' \<mapsto> ''{b}''] ++ [''b'' \<mapsto> ''z'']) = Inr ''{b}''
   \<and> vformat ''{{b}}'' Map.empty = Inr ''{b}''
   \<and> vformat ''{{b}}'' (Map.empty ++ [''b'' \<mapsto> ''z'']) = Inr ''{b}''"
  by (simp add: vformat_def SafeDict_getitem_def get_field_def is_digit_def)

text \<open>
  Claim C6, amended.  For a template made of brace-free text and plain named placeholders
  only (no escaped braces), and two contexts with disjoint key sets of which the first
  binds only brace-free values, rendering with the first context succeeds, and rendering
  its result with the second context gives the same string as rendering the template
  once with the union of the two contexts.
\<close>

theorem two_pass_rendering:
  assumes "\<forall>seg \<in> set segs. simple_segment seg"
    and "\<forall>v \<in> ran d1. brace_free v"
    and "dom d1 \<inter> dom d2 = {}"
  shows "\<exists>once. vformat (template_text segs) d1 = Inr once
           \<and> vformat once d2 = Inr (render (d1 ++ d2) segs)
           \<and> vformat (template_text segs) (d1 ++ d2) = Inr (render (d1 ++ d2) segs)"
  using two_pass_helper [OF assms] by blast

theorem two_pass_rendering_witness:
  "list_all simple_segment [Lit ''cp '', Field ''src'', Lit '' '', Field ''dst'']
   \<and> ran [''src'' \<mapsto> ''a''] = {''a''} \<and> brace_free ''a''
   \<and> dom [''src'' \<mapsto> ''a''] \<inter> dom [''dst'' \<mapsto> ''b''] = {}
   \<and> (\<exists>once. vformat (template_text [Lit ''cp '', Field ''src'', Lit '' '', Field ''dst''])
                  [''src'' \<mapsto> ''a''] = Inr once
          \<and> vformat once [''dst'' \<mapsto> ''b''] = Inr ''cp a b''
          \<and> vformat (template_text [Lit ''cp '', Field ''src'', Lit '' '', Field ''dst''])
                ([''src'' \<mapsto> ''a''] ++ [''dst'' \<mapsto> ''b'']) = Inr ''cp a b'')"
proof -
  let ?segs = "[Lit ''cp '', Field ''src'', Lit '' '', Field ''dst'']"
  have h1: "\<forall>seg \<in> set ?segs. simple_segment seg"
    by (simp add: brace_free_def plain_key_def plain_char_def is_digit_def)
  have h2: "\<forall>v \<in> ran [''src'' \<mapsto> ''a'']. brace_free v"
    by (simp add: brace_free_def)
  have h3: "dom [''src'' \<mapsto> ''a''] \<inter> dom [''dst'' \<mapsto> ''b''] = {}"
    by simp
  have r: "render ([''src'' \<mapsto> ''a''] ++ [''dst'' \<mapsto> ''b'']) ?segs = ''cp a b''"
    by (simp add: render_def)
  have h4: "ran [''src'' \<mapsto> ''a''] = {''a''}" and h5: "brace_free ''a''"
    by (simp_all add: brace_free_def)
  from two_pass_rendering [OF h1 h2 h3] r
  have "\<exists>once. vformat (template_text ?segs) [''src'' \<mapsto> ''a''] = Inr once
          \<and> vformat once [''dst'' \<mapsto> ''b''] = Inr ''cp a b''
          \<and> vformat (template_text ?segs) ([''src'' \<mapsto> ''a''] ++ [''dst'' \<mapsto> ''b''])
              = Inr ''cp a b''"
    by simp
  with h1 h3 h4 h5 show ?thesis by (simp only: list_all_iff simp_thms)
qed

subsection \<open>Submission\<close>

lemma transform_submission_text:
  "str_format SLURM_TRANSFORM_COMMAND
     [''num_jobs'' \<mapsto> n, ''email'' \<mapsto> email, ''out_folder'' \<mapsto> out, ''err_folder'' \<mapsto> err]
   = Inr (''sbatch --array=0-'' @ n @ '' --mail-user '' @ email @ '' --output '' @ out
          @ ''/scrna_transform_array_%A_%a.out'' @ [CHR 0x0A] @ ''--error '' @ err
          @ ''/scrna_transform_array_%A_%a.err slurm_transform_array.sh'')"
  by (simp add: str_format_def SLURM_TRANSFORM_COMMAND_def dict_getitem_def get_field_def
      is_digit_def)

text \<open>
  The error of the extraction is not caught in \<open>run\<close>: when the scheduler answers the first
  submission with output that has no trailing integer, \<open>run\<close> ends with \<open>ValueError\<close> after
  that single external call; the second submission and the wait are never issued.
\<close>

lemma run_propagates_parse_error:
  assumes "\<not> path_exists fs (path_join (working_dir_path self) ''slurm_transform_out'')"
    and "transform_commands self = Some tc"
    and "\<forall>args. job_id_of_stdout (scheduler args) = Inl ValueError"
  shows "\<exists>call fs'. run scheduler self email_addr fs = (Inl ValueError, [call], fs')"
proof -
  have ne: "path_join (working_dir_path self) ''slurm_transform_out'' \<noteq> []"
    by (simp add: path_join_def)
  show ?thesis
    using assms ne
    by (simp add: run_def Let_def makedirs_def dict_len_def submit_def transform_submission_text)
qed

subsection \<open>Aggregation\<close>

lemma row_getitem_Some:
  "row_lookup fn row key = Some v \<Longrightarrow> row_getitem fn row key = Inr v"
  by (simp add: row_getitem_def)
















lemma beta_summary:
  "get_avg_score_for_each_cell_type example_lib (example_results_fs ''beta'')
     ''w/retrieval_results/beta/retrieval_summary.csv'' = Inr [(Some ''catA'', 2), (Some ''catB'', 2)]"
  by (simp add: get_avg_score_for_each_cell_type_def open_read_def example_lib_def
      example_results_fs_def
      example_summary_def plain_csv_reader_def DictReader_rows_def row_getitem_def
      float_of_cell_def decimal_float_def append_score_def np_mean_def is_digit_def digit_val_def)


lemma get_avg_missing:
  "\<not> path_exists fs p \<Longrightarrow> get_avg_score_for_each_cell_type lib fs p = Inl FileNotFoundError"
  by (simp add: get_avg_score_for_each_cell_type_def open_read_def path_exists_def)

lemma results_loop_prefix:
  assumes "\<forall>(m', f') \<in> set before.
      \<exists>avgs. get_avg_score_for_each_cell_type lib fs (path_join f' ''retrieval_summary.csv'') = Inr avgs"
  shows "\<exists>acc'. results_loop lib fs (before @ rest) acc = results_loop lib fs rest acc'"
  using assms
proof (induction before arbitrary: acc)
  case Nil
  show ?case by auto
next
  case (Cons p before)
  obtain m' f' where p: "p = (m', f')" by (cases p)
  with Cons.prems obtain avgs where
    "get_avg_score_for_each_cell_type lib fs (path_join f' ''retrieval_summary.csv'') = Inr avgs"
    by auto
  moreover from Cons.prems have "\<forall>(m', f') \<in> set before.
      \<exists>avgs. get_avg_score_for_each_cell_type lib fs (path_join f' ''retrieval_summary.csv'') = Inr avgs"
    by simp
  ultimately show ?case using Cons.IH p by simp
qed

lemma results_loop_missing:
  assumes "\<forall>(m', f') \<in> set before.
      \<exists>avgs. get_avg_score_for_each_cell_type lib fs (path_join f' ''retrieval_summary.csv'') = Inr avgs"
    and "\<not> path_exists fs (path_join folder ''retrieval_summary.csv'')"
  shows "results_loop lib fs (before @ (m, folder) # after) acc = Inl FileNotFoundError"
proof -
  from results_loop_prefix [OF assms(1)] obtain acc' where
    "results_loop lib fs (before @ (m, folder) # after) acc =
     results_loop lib fs ((m, folder) # after) acc'"
    by blast
  with assms(2) show ?thesis by (simp add: get_avg_missing)
qed

text \<open>
  Claim C1, amended.  When some model has no result file and every model before it in
  the iteration order has a readable, parseable one, \<open>create_overall_results_table\<close>
  (and with it \<open>compile_results\<close>) raises \<open>FileNotFoundError\<close>: no rows are returned for any
  model, no skip is recorded and no table is written (the file system is unchanged).
\<close>

theorem missing_result_file_aborts:
  assumes "retrieval_result_folders self = Some (before @ (m, folder) # after)"
    and "\<forall>(m', f') \<in> set before.
      \<exists>avgs. get_avg_score_for_each_cell_type lib fs (path_join f' ''retrieval_summary.csv'') = Inr avgs"
    and "\<not> path_exists fs (path_join folder ''retrieval_summary.csv'')"
  shows "create_overall_results_table lib self fs = (Inl FileNotFoundError, fs)
         \<and> compile_results lib self fs = (Inl FileNotFoundError, fs)"
  using assms(1) results_loop_missing [OF assms(2,3), of m after "[]"]
  by (simp add: create_overall_results_table_def compile_results_def)

text \<open>
  Claim C1, as stated, fails: with no result file for \<open>alpha\<close> and a valid one for \<open>beta\<close>,
  compiling the table raises \<open>FileNotFoundError\<close> instead of producing the rows of \<open>beta\<close>.
\<close>

theorem missing_file_raises:
  "get_avg_score_for_each_cell_type example_lib (example_results_fs ''beta'')
     ''w/retrieval_results/beta/retrieval_summary.csv'' = Inr [(Some ''catA'', 2), (Some ''catB'', 2)]
   \<and> \<not> path_exists (example_results_fs ''beta'') ''w/retrieval_results/alpha/retrieval_summary.csv''
   \<and> retrieval_result_folders example_prepared =
       Some [(''alpha'', ''w/retrieval_results/alpha''), (''beta'', ''w/retrieval_results/beta'')]
   \<and> create_overall_results_table example_lib example_prepared (example_results_fs ''beta'')
       = (Inl FileNotFoundError, example_results_fs ''beta'')"
proof -
  have a: "\<not> path_exists (example_results_fs ''beta'') ''w/retrieval_results/alpha/retrieval_summary.csv''"
    by (simp add: path_exists_def example_results_fs_def)
  have f: "retrieval_result_folders example_prepared =
       Some [(''alpha'', ''w/retrieval_results/alpha''), (''beta'', ''w/retrieval_results/beta'')]"
    by (simp add: example_prepared_def)
  have "create_overall_results_table example_lib example_prepared (example_results_fs ''beta'')
       = (Inl FileNotFoundError, example_results_fs ''beta'')"
    using a by (simp add: create_overall_results_table_def f path_join_def get_avg_missing)
  with a f beta_summary show ?thesis by simp
qed

theorem missing_result_file_aborts_witness:
  "retrieval_result_folders example_prepared =
       Some ([(''alpha'', ''w/retrieval_results/alpha'')] @ (''beta'', ''w/retrieval_results/beta'') # [])
   \<and> get_avg_score_for_each_cell_type example_lib (example_results_fs ''alpha'')
       (path_join ''w/retrieval_results/alpha'' ''retrieval_summary.csv'')
       = Inr [(Some ''catA'', 2), (Some ''catB'', 2)]
   \<and> \<not> path_exists (example_results_fs ''alpha'')
         (path_join ''w/retrieval_results/beta'' ''retrieval_summary.csv'')
   \<and> create_overall_results_table example_lib example_prepared (example_results_fs ''alpha'')
       = (Inl FileNotFoundError, example_results_fs ''alpha'')
   \<and> compile_results example_lib example_prepared (example_results_fs ''alpha'')
       = (Inl FileNotFoundError, example_results_fs ''alpha'')"
proof -
  have f: "retrieval_result_folders example_prepared =
       Some ([(''alpha'', ''w/retrieval_results/alpha'')] @ (''beta'', ''w/retrieval_results/beta'') # [])"
    by (simp add: example_prepared_def)
  have g: "get_avg_score_for_each_cell_type example_lib (example_results_fs ''alpha'')
       (path_join ''w/retrieval_results/alpha'' ''retrieval_summary.csv'')
       = Inr [(Some ''catA'', 2), (Some ''catB'', 2)]"
    by (simp add: get_avg_score_for_each_cell_type_def open_read_def example_lib_def
      example_results_fs_def path_join_def
      example_summary_def plain_csv_reader_def DictReader_rows_def row_getitem_def
      float_of_cell_def decimal_float_def append_score_def np_mean_def is_digit_def digit_val_def)
  then have b: "\<forall>(m', f') \<in> set [(''alpha'', ''w/retrieval_results/alpha'')].
      \<exists>avgs. get_avg_score_for_each_cell_type example_lib (example_results_fs ''alpha'')
        (path_join f' ''retrieval_summary.csv'') = Inr avgs"
    by simp
  have a: "\<not> path_exists (example_results_fs ''alpha'')
         (path_join ''w/retrieval_results/beta'' ''retrieval_summary.csv'')"
    by (simp add: path_exists_def example_results_fs_def path_join_def)
  from missing_result_file_aborts [OF f b a] f g a show ?thesis by blast
qed

subsection \<open>Command generation\<close>

lemma vformat_reduce:
  "vformat REDUCE_COMMAND_TEMPLATE
     [''trained_nn_folder'' \<mapsto> model_folder, ''output_folder'' \<mapsto> out]
   = Inr (reduce_command model_folder out)"
proof -
  let ?segs = "[Lit ''python scrna.py reduce '', Field ''trained_nn_folder'',
      Lit '' --data=data/integrate_imputing_dataset_kNN10_simgene_T.txt --out_folder='',
      Field ''output_folder'']"
  have ok: "\<forall>seg \<in> set ?segs. segment_ok seg"
    by (simp add: brace_free_def plain_key_def plain_char_def is_digit_def)
  have t: "template_text ?segs = REDUCE_COMMAND_TEMPLATE"
    by (simp add: template_text_def REDUCE_COMMAND_TEMPLATE_def)
  from vformat_segments [OF ok, of "[''trained_nn_folder'' \<mapsto> model_folder, ''output_folder'' \<mapsto> out]"]
  show ?thesis unfolding t by (simp add: render_def reduce_command_def)
qed

lemma vformat_retrieval:
  "vformat RETRIEVAL_COMMAND_TEMPLATE
     [''reduced_data_folder'' \<mapsto> inp, ''output_folder'' \<mapsto> out]
   = Inr (retrieval_command inp out)"
proof -
  let ?segs = "[Lit ''python scrna.py retrieval '', Field ''reduced_data_folder'',
      Lit '' --out_folder='', Field ''output_folder'']"
  have ok: "\<forall>seg \<in> set ?segs. segment_ok seg"
    by (simp add: brace_free_def plain_key_def plain_char_def is_digit_def)
  have t: "template_text ?segs = RETRIEVAL_COMMAND_TEMPLATE"
    by (simp add: template_text_def RETRIEVAL_COMMAND_TEMPLATE_def)
  from vformat_segments [OF ok, of "[''reduced_data_folder'' \<mapsto> inp, ''output_folder'' \<mapsto> out]"]
  show ?thesis unfolding t by (simp add: render_def retrieval_command_def)
qed

lemma transform_loop_fold:
  "transform_loop wd mfs cmds folders =
     Inr (fold (\<lambda>mf. AList.update (model_name_of mf) (reduce_command mf (transformed_folder wd mf))) mfs cmds,
          fold (\<lambda>mf. AList.update (model_name_of mf) (transformed_folder wd mf)) mfs folders)"
  by (induction mfs arbitrary: cmds folders)
     (simp_all add: Let_def vformat_reduce model_name_of_def transformed_folder_def)

lemma retrieval_loop_fold:
  "retrieval_loop rdir items cmds folders =
     Inr (fold (\<lambda>(n, d). AList.update n (retrieval_command d (path_join rdir n))) items cmds,
          fold (\<lambda>(n, d). AList.update n (path_join rdir n)) items folders)"
  by (induction items arbitrary: cmds folders)
     (auto simp: Let_def vformat_retrieval)







lemma fold_map_upd_dom:
  "dom (fold (\<lambda>x m. m(k x \<mapsto> v x)) xs m) = dom m \<union> k ` set xs"
  by (induction xs arbitrary: m) auto


lemma last_path_join: "b \<noteq> [] \<Longrightarrow> last (path_join a b) = last b"
  by (simp add: path_join_def)

lemma results_dir_last: "last (results_dir self) = CHR ''s''"
  by (simp add: results_dir_def last_path_join)

lemma results_dir_nonempty: "results_dir self \<noteq> []"
  by (simp add: results_dir_def path_join_def)

lemma results_dir_neq:
  "results_dir self \<noteq> ''transform_commands.list''"
  "results_dir self \<noteq> ''retrieval_commands.list''"
  using results_dir_last [of self] by auto

lemma prepare_Inr:
  assumes "prepare self models_file fs = (Inr (), self', fs')"
  shows "\<exists>text. files fs models_file = Some text
           \<and> self' = prepared self (map strip (readlines text))
           \<and> fs' = prepared_fs self (map strip (readlines text)) fs"
proof -
  from assms obtain content where rd: "open_read fs models_file = Inr content"
    by (auto simp: prepare_def split: sum.splits)
  then have f: "files fs models_file = Some content"
    by (auto simp: open_read_def split: option.splits if_splits)
  from assms show ?thesis
    unfolding prepare_def rd
    by (auto simp: f Let_def transform_loop_fold retrieval_loop_fold write_out_command_dict_def
        write_text_def makedirs_def prepared_def prepared_fs_def stage1_commands_def
        stage1_folders_def stage2_commands_def stage2_folders_def command_lines_def
        results_dir_def
        split: if_splits)
qed

lemma prepare_succeeds:
  assumes "prepare_can_run self models_file fs" and "files fs models_file = Some text"
  shows "prepare self models_file fs =
           (Inr (), prepared self (map strip (readlines text)),
            prepared_fs self (map strip (readlines text)) fs)"
proof -
  from assms(2) have rd: "open_read fs models_file = Inr text" by (simp add: open_read_def)
  from assms(1) have c: "''transform_commands.list'' \<notin> dirs fs"
    "''retrieval_commands.list'' \<notin> dirs fs"
    "''retrieval_commands.list'' \<notin> set (parent_dirs [] (results_dir self))"
    "\<not> path_exists fs (results_dir self)"
    by (simp_all add: prepare_can_run_def)
  from c(4) have ne: "results_dir self \<notin> dirs fs" "files fs (results_dir self) = None"
    "tables fs (results_dir self) = None"
    unfolding path_exists_def by blast+
  show ?thesis
    unfolding prepare_def rd
    using c(1-3) ne results_dir_neq [of self] results_dir_nonempty [of self]
    by (simp add: Let_def transform_loop_fold retrieval_loop_fold write_out_command_dict_def
        write_text_def makedirs_def prepared_def prepared_fs_def stage1_commands_def
        stage1_folders_def stage2_commands_def stage2_folders_def command_lines_def
        path_exists_def results_dir_def [symmetric])
qed






lemma under_directory_needs_separator:
  "CHR ''/'' \<notin> set p \<Longrightarrow> \<not> under_directory d p"
proof
  assume no: "CHR ''/'' \<notin> set p" and "under_directory d p"
  then have "take (length d + 1) p = d @ ''/''" by (simp add: under_directory_def)
  then have "CHR ''/'' \<in> set (take (length d + 1) p)" by simp
  then have "CHR ''/'' \<in> set p" by (rule in_set_takeD)
  with no show False by simp
qed

text \<open>
  Claim C2, amended.  Whenever \<open>prepare\<close> returns, the only files it has written are the
  two command lists, at the fixed relative paths \<open>transform_commands.list\<close> and
  \<open>retrieval_commands.list\<close>, which are not rooted at the workspace whatever the workspace
  is; the only directories it has created are the \<open>retrieval_results\<close> directory of the
  workspace and its parents.
\<close>

theorem command_lists_in_current_directory:
  assumes "prepare self models_file fs = (Inr (), self', fs')"
  shows "\<exists>tc rc. transform_commands self' = Some tc \<and> retrieval_commands self' = Some rc
           \<and> files fs' = (files fs)(''transform_commands.list'' \<mapsto> command_lines tc,
                                     ''retrieval_commands.list'' \<mapsto> command_lines rc)
           \<and> tables fs' = (tables fs)(''transform_commands.list'' := None,
                                       ''retrieval_commands.list'' := None)
           \<and> dirs fs' = dirs fs \<union> set (parent_dirs [] (results_dir self)) \<union> {results_dir self}
           \<and> \<not> under_directory (working_dir_path self) ''transform_commands.list''
           \<and> \<not> under_directory (working_dir_path self) ''retrieval_commands.list''"
proof -
  from prepare_Inr [OF assms] obtain content where
    "self' = prepared self (map strip (readlines content))"
    "fs' = prepared_fs self (map strip (readlines content)) fs"
    by blast
  then show ?thesis
    by (simp add: prepared_def prepared_fs_def under_directory_needs_separator)
qed










subsection \<open>The properties on a run with two models\<close>

lemma example_lines:
  "map strip (readlines example_models_text) = [''models/alpha'', ''models/beta'']"
  "map strip (readlines example_collision_text) = [''runs/a/net'', ''runs/b/net'']"
  "readlines example_blank_text = [''models/alpha'' @ [CHR 0x0A], [CHR 0x0A], ''models/beta'' @ [CHR 0x0A]]"
  by (simp_all add: example_models_text_def example_collision_text_def example_blank_text_def
      readlines_def strip_def py_isspace_def)

lemma example_names:
  "model_name_of ''models/alpha'' = ''alpha''"
  "model_name_of ''models/beta'' = ''beta''"
  "model_name_of ''runs/a/net'' = ''net''"
  "model_name_of ''runs/b/net'' = ''net''"
  by (simp_all add: model_name_of_def normpath_def basename_def)

lemma example_can_run:
  "prepare_can_run example_new DEFAULT_MODELS_FILE (example_fs models_text)"
  by (simp add: prepare_can_run_def example_new_def example_fs_def DEFAULT_MODELS_FILE_def
      results_dir_def path_join_def path_exists_def)

lemma example_file:
  "files (example_fs models_text) DEFAULT_MODELS_FILE = Some models_text"
  by (simp add: example_fs_def DEFAULT_MODELS_FILE_def)

lemma example_prepare:
  "prepare example_new DEFAULT_MODELS_FILE (example_fs example_models_text) =
     (Inr (), example_prepared, example_prepared_fs)"
proof -
  have "prepared example_new [''models/alpha'', ''models/beta''] = example_prepared"
    by (simp add: prepared_def example_new_def example_prepared_def stage1_commands_def
        stage1_folders_def stage2_commands_def stage2_folders_def example_names
        transformed_folder_def reduce_command_def retrieval_command_def results_dir_def
        path_join_def)
  moreover have "prepared_fs example_new [''models/alpha'', ''models/beta'']
      (example_fs example_models_text) = example_prepared_fs"
    by (simp add: prepared_fs_def example_new_def example_prepared_fs_def example_fs_def
        stage1_commands_def
        stage1_folders_def stage2_commands_def stage2_folders_def example_names
        transformed_folder_def reduce_command_def retrieval_command_def results_dir_def
        path_join_def command_lines_def insert_commute)
  ultimately show ?thesis
    using prepare_succeeds [OF example_can_run example_file, of example_models_text]
    by (simp add: example_lines)
qed

text \<open>
  Claim C2, as stated, fails: in the workspace \<open>w\<close> the stage-1 command list is written at
  \<open>transform_commands.list\<close>, a path of the current directory and not of the workspace.
\<close>

theorem command_lists_outside_workspace:
  "working_dir_path example_new = ''w''
   \<and> prepare example_new DEFAULT_MODELS_FILE (example_fs example_models_text) =
       (Inr (), example_prepared, example_prepared_fs)
   \<and> files (example_fs example_models_text) ''transform_commands.list'' = None
   \<and> files example_prepared_fs ''transform_commands.list'' =
       Some (''python scrna.py reduce models/alpha --data=data/integrate_imputing_dataset_kNN10_simgene_T.txt --out_folder=w/data_transformed_by_alpha'' @ [CHR 0x0A] @
             ''python scrna.py reduce models/beta --data=data/integrate_imputing_dataset_kNN10_simgene_T.txt --out_folder=w/data_transformed_by_beta'' @ [CHR 0x0A])
   \<and> \<not> under_directory ''w'' ''transform_commands.list''"
  using example_prepare
  by (simp add: example_new_def example_fs_def example_prepared_fs_def under_directory_def)

theorem command_lists_in_current_directory_witness:
  "prepare example_new DEFAULT_MODELS_FILE (example_fs example_models_text) =
       (Inr (), example_prepared, example_prepared_fs)
   \<and> (\<exists>tc rc. transform_commands example_prepared = Some tc
         \<and> retrieval_commands example_prepared = Some rc
         \<and> files example_prepared_fs =
             (files (example_fs example_models_text))
               (''transform_commands.list'' \<mapsto> command_lines tc,
                ''retrieval_commands.list'' \<mapsto> command_lines rc)
         \<and> tables example_prepared_fs =
             (tables (example_fs example_models_text))
               (''transform_commands.list'' := None, ''retrieval_commands.list'' := None)
         \<and> dirs example_prepared_fs =
             dirs (example_fs example_models_text)
             \<union> set (parent_dirs [] (results_dir example_new)) \<union> {results_dir example_new}
         \<and> \<not> under_directory (working_dir_path example_new) ''transform_commands.list''
         \<and> \<not> under_directory (working_dir_path example_new) ''retrieval_commands.list'')
   \<and> results_dir example_new = ''w/retrieval_results''"
proof -
  have "results_dir example_new = ''w/retrieval_results''"
    by (simp add: results_dir_def example_new_def path_join_def)
  with command_lists_in_current_directory [OF example_prepare] example_prepare
  show ?thesis by blast
qed




end
